theory Spec2Isabelle
  imports Main
begin

text \<open>
  A model of \<^verbatim>\<open>limits-manager.js\<close>, the usage limits of the free plan: before a user
  uploads a study material, takes a quiz or asks for an AI writing, the module counts the
  user's records in a Firestore database and compares the count with a fixed limit.
  Asynchronous functions are modelled as functions that take the world and return a
  result with the new world; a rejected promise is the result \<open>Inl e\<close>.
\<close>

section \<open>Configuration constants\<close>

text \<open>
  \<^verbatim>\<open>FREE_LIMITS\<close> and \<^verbatim>\<open>PLAN_NAMES\<close> of \<^verbatim>\<open>limits-manager.js\<close>, lines 4 to 15.
  JavaScript numbers that only ever hold small integers are modelled as \<open>int\<close>.
\<close>

record free_limits =
  studyMaterials :: int
  quizzesPerMonth :: int
  aiWritingsPerDay :: int
  questionsPerMaterial :: int

definition FREE_LIMITS :: free_limits where
  "FREE_LIMITS = \<lparr>studyMaterials = 3, quizzesPerMonth = 5, aiWritingsPerDay = 1,
     questionsPerMaterial = 5\<rparr>"

definition PLAN_NAMES :: "string \<rightharpoonup> string" where
  "PLAN_NAMES = [''free'' \<mapsto> ''Free'', ''starter'' \<mapsto> ''Starter'', ''pro'' \<mapsto> ''Pro'']"

section \<open>The Record Store and the host runtime\<close>

text \<open>
  A Firestore document is a finite map from field names to values; the two kinds of value
  the queries of this module compare are strings and timestamps. A timestamp is the number
  of nanoseconds since the epoch (Firestore's seconds and nanoseconds, flattened), so that
  the order of timestamps is the order of \<open>int\<close>.
\<close>

datatype fvalue = FString string | FTimestamp int

type_synonym doc = "string \<rightharpoonup> fvalue"

text \<open>
  The query constraints the module builds: \<^verbatim>\<open>where(f, '==', v)\<close> and
  \<^verbatim>\<open>where(f, '>=', t)\<close> with \<open>t\<close> a timestamp. A document without the field, or
  with a value of another type there, does not satisfy a constraint.
\<close>

datatype constraint = WhereEq string fvalue | WhereGe string int

datatype query = Query string "constraint list"

datatype store_error = StoreError string

text \<open>
  What the module does to the outside world is recorded in a trace: a plan lookup, a
  reading of the wall clock (\<^verbatim>\<open>new Date()\<close>) and a query sent to the store
  (\<^verbatim>\<open>getDocs\<close>).
\<close>

datatype event = PlanLookup string | NewDate | GetDocs query

fun is_GetDocs :: "event \<Rightarrow> bool" where
  "is_GetDocs (GetDocs q) = True"
| "is_GetDocs e = False"

fun is_NewDate :: "event \<Rightarrow> bool" where
  "is_NewDate NewDate = True"
| "is_NewDate e = False"

fun is_PlanLookup :: "event \<Rightarrow> bool" where
  "is_PlanLookup (PlanLookup u) = True"
| "is_PlanLookup e = False"

text \<open>
  The world a call runs in. \<open>collections\<close> is the content of the store, by collection
  name. \<open>faults\<close> says whether the \<open>k\<close>-th query ever sent fails, and with which error;
  \<open>clock\<close> is what the \<open>k\<close>-th reading of the wall clock returns, in milliseconds since
  the epoch. \<open>getFullYear\<close>, \<open>getMonth\<close>, \<open>getDate\<close> are the host's local-time accessors
  of a \<^verbatim>\<open>Date\<close> and \<open>localDate y m d\<close> is \<^verbatim>\<open>new Date(y, m, d)\<close>, local
  midnight of that day; they depend on the host's time zone and are taken as given.
  \<open>trace\<close> is the list of effects so far. The \<^verbatim>\<open>db\<close> argument of the source
  functions is the handle to this store, so the world stands in its place.
\<close>

record world =
  collections :: "string \<Rightarrow> doc list"
  faults :: "nat \<Rightarrow> store_error option"
  clock :: "nat \<Rightarrow> int"
  getFullYear :: "int \<Rightarrow> int"
  getMonth :: "int \<Rightarrow> int"
  getDate :: "int \<Rightarrow> int"
  localDate :: "int \<Rightarrow> int \<Rightarrow> int \<Rightarrow> int"
  trace :: "event list"

definition queries_issued :: "world \<Rightarrow> nat" where
  "queries_issued w = length (filter is_GetDocs (trace w))"

definition clock_reads :: "world \<Rightarrow> nat" where
  "clock_reads w = length (filter is_NewDate (trace w))"

definition plan_lookups :: "world \<Rightarrow> nat" where
  "plan_lookups w = length (filter is_PlanLookup (trace w))"

definition log_event :: "event \<Rightarrow> world \<Rightarrow> world" where
  "log_event e w = w\<lparr>trace := trace w @ [e]\<rparr>"

fun satisfies :: "doc \<Rightarrow> constraint \<Rightarrow> bool" where
  "satisfies d (WhereEq f v) = (d f = Some v)"
| "satisfies d (WhereGe f t) = (case d f of Some (FTimestamp s) \<Rightarrow> t \<le> s | _ \<Rightarrow> False)"

fun run_query :: "(string \<Rightarrow> doc list) \<Rightarrow> query \<Rightarrow> doc list" where
  "run_query cs (Query c ws) = filter (\<lambda>d. list_all (satisfies d) ws) (cs c)"

text \<open>
  \<^verbatim>\<open>await getDocs(q)\<close>: the query is sent (and logged); it either fails with the
  store's error, which rejects the awaiting function, or yields the snapshot of the
  matching documents.
\<close>

definition getDocs :: "query \<Rightarrow> world \<Rightarrow> (store_error + doc list) \<times> world" where
  "getDocs q w =
     (case faults w (queries_issued w) of
        Some e \<Rightarrow> (Inl e, log_event (GetDocs q) w)
      | None \<Rightarrow> (Inr (run_query (collections w) q), log_event (GetDocs q) w))"

definition new_Date :: "world \<Rightarrow> int \<times> world" where
  "new_Date w = (clock w (clock_reads w), log_event NewDate w)"

text \<open>\<^verbatim>\<open>Timestamp.fromDate\<close>: milliseconds to nanoseconds.\<close>

definition Timestamp_fromDate :: "int \<Rightarrow> int" where
  "Timestamp_fromDate ms = ms * 1000000"

section \<open>Decisions\<close>

text \<open>
  The object a check returns. A property the object literal does not set is \<open>None\<close>
  (reading it in JavaScript gives \<^verbatim>\<open>undefined\<close>).
\<close>

record decision =
  allowed :: bool
  reason :: "string option"
  current :: "int option"
  limit :: "int option"
  remaining :: "int option"
  upgradeMessage :: "string option"

text \<open>\<^verbatim>\<open>{ allowed: true }\<close>\<close>

definition allowed_only :: decision where
  "allowed_only = \<lparr>allowed = True, reason = None, current = None, limit = None,
     remaining = None, upgradeMessage = None\<rparr>"

text \<open>The decimal digits a template literal prints for an integer.\<close>

definition digit_char :: "nat \<Rightarrow> char" where
  "digit_char n = char_of (48 + n)"

fun digits :: "nat \<Rightarrow> string" where
  "digits n = (if n < 10 then [digit_char n] else digits (n div 10) @ [digit_char (n mod 10)])"

definition Number_toString :: "int \<Rightarrow> string" where
  "Number_toString i = (if i < 0 then CHR ''-'' # digits (nat (- i)) else digits (nat i))"

section \<open>The limits manager\<close>

text \<open>
  \<^verbatim>\<open>getUserPlan\<close> (lines 45 to 48) ignores its argument and returns \<^verbatim>\<open>'free'\<close>.
  The lookup is logged so that a caller that never asks for the plan can be told from one
  that does.
\<close>

definition getUserPlan :: "string \<Rightarrow> world \<Rightarrow> string \<times> world" where
  "getUserPlan userId w = (''free'', log_event (PlanLookup userId) w)"

text \<open>
  \<^verbatim>\<open>checkMaterialLimit\<close> (lines 51 to 77). The dynamic import of the Firestore module
  is taken to succeed: the \<^verbatim>\<open>db\<close> handle the caller passes was made by that module.
\<close>

definition checkMaterialLimit :: "world \<Rightarrow> string \<Rightarrow> (store_error + decision) \<times> world" where
  "checkMaterialLimit w userId =
     (let q = Query ''study_materials'' [WhereEq ''userId'' (FString userId)];
          (r, w1) = getDocs q w
      in case r of
           Inl e \<Rightarrow> (Inl e, w1)
         | Inr snapshot \<Rightarrow>
             (let count = int (length snapshot);
                  lim = studyMaterials FREE_LIMITS
              in if count \<ge> lim then
                   (Inr \<lparr>allowed = False,
                         reason = Some (''You've reached the free plan limit of ''
                                   @ Number_toString lim @ '' study materials.''),
                         current = Some count,
                         limit = Some lim,
                         remaining = None,
                         upgradeMessage = Some ''Upgrade to Starter ($10/month) for 20 materials or Pro ($20/month) for unlimited!''\<rparr>, w1)
                 else
                   (Inr \<lparr>allowed = True, reason = None, current = Some count, limit = Some lim,
                         remaining = Some (lim - count), upgradeMessage = None\<rparr>, w1)))"

text \<open>\<^verbatim>\<open>checkQuizLimit\<close> (lines 80 to 115).\<close>

definition checkQuizLimit :: "world \<Rightarrow> string \<Rightarrow> (store_error + decision) \<times> world" where
  "checkQuizLimit w userId =
     (let (now, w1) = new_Date w;
          monthStart = localDate w1 (getFullYear w1 now) (getMonth w1 now) 1;
          monthStartTimestamp = Timestamp_fromDate monthStart;
          q = Query ''quiz_results''
                [WhereEq ''userId'' (FString userId), WhereGe ''completedAt'' monthStartTimestamp];
          (r, w2) = getDocs q w1
      in case r of
           Inl e \<Rightarrow> (Inl e, w2)
         | Inr snapshot \<Rightarrow>
             (let count = int (length snapshot);
                  lim = quizzesPerMonth FREE_LIMITS
              in if count \<ge> lim then
                   (Inr \<lparr>allowed = False,
                         reason = Some (''You've taken '' @ Number_toString lim
                                   @ '' quizzes this month (free plan limit).''),
                         current = Some count,
                         limit = Some lim,
                         remaining = None,
                         upgradeMessage = Some ''Upgrade to Starter or Pro for unlimited quizzes!''\<rparr>, w2)
                 else
                   (Inr \<lparr>allowed = True, reason = None, current = Some count, limit = Some lim,
                         remaining = Some (lim - count), upgradeMessage = None\<rparr>, w2)))"

text \<open>\<^verbatim>\<open>checkWritingLimit\<close> (lines 118 to 153).\<close>

definition checkWritingLimit :: "world \<Rightarrow> string \<Rightarrow> (store_error + decision) \<times> world" where
  "checkWritingLimit w userId =
     (let (now, w1) = new_Date w;
          todayStart = localDate w1 (getFullYear w1 now) (getMonth w1 now) (getDate w1 now);
          todayStartTimestamp = Timestamp_fromDate todayStart;
          q = Query ''ai_writings''
                [WhereEq ''userId'' (FString userId), WhereGe ''createdAt'' todayStartTimestamp];
          (r, w2) = getDocs q w1
      in case r of
           Inl e \<Rightarrow> (Inl e, w2)
         | Inr snapshot \<Rightarrow>
             (let count = int (length snapshot);
                  lim = aiWritingsPerDay FREE_LIMITS
              in if count \<ge> lim then
                   (Inr \<lparr>allowed = False,
                         reason = Some (''You've used your '' @ Number_toString lim
                                   @ '' AI writing for today (free plan limit).''),
                         current = Some count,
                         limit = Some lim,
                         remaining = None,
                         upgradeMessage = Some ''Upgrade to Starter for 10 writings/day or Pro for unlimited!''\<rparr>, w2)
                 else
                   (Inr \<lparr>allowed = True, reason = None, current = Some count, limit = Some lim,
                         remaining = Some (lim - count), upgradeMessage = None\<rparr>, w2)))"

text \<open>
  \<^verbatim>\<open>canUserPerformAction\<close> (lines 18 to 42), in two parts. \<open>canUserPerformAction_plan\<close>
  is the body from line 21 on, with the plan that line 19 resolved as an argument;
  \<open>canUserPerformAction\<close> is the whole function, which takes the plan from
  \<open>getUserPlan\<close>. The \<^verbatim>\<open>switch\<close> compares with \<^verbatim>\<open>===\<close>, in the order of its cases.
\<close>

definition canUserPerformAction_plan ::
    "string \<Rightarrow> world \<Rightarrow> string \<Rightarrow> string \<Rightarrow> (store_error + decision) \<times> world" where
  "canUserPerformAction_plan userPlan w userId action =
     (if userPlan \<noteq> ''free'' then (Inr allowed_only, w)
      else if action = ''upload_material'' then checkMaterialLimit w userId
      else if action = ''take_quiz'' then checkQuizLimit w userId
      else if action = ''ai_writing'' then checkWritingLimit w userId
      else if action = ''generate_questions'' then (Inr allowed_only, w)
      else (Inr allowed_only, w))"

definition canUserPerformAction ::
    "world \<Rightarrow> string \<Rightarrow> string \<Rightarrow> (store_error + decision) \<times> world" where
  "canUserPerformAction w userId action =
     (let (userPlan, w1) = getUserPlan userId w
      in canUserPerformAction_plan userPlan w1 userId action)"

text \<open>
  \<^verbatim>\<open>getUserUsageStats\<close> (lines 156 to 178). The fields \<^verbatim>\<open>limit\<close> and
  \<^verbatim>\<open>remaining\<close> of a usage entry are \<open>u_limit\<close> and \<open>u_remaining\<close> here, the names
  being taken by the decision.
\<close>

record usage =
  used :: "int option"
  u_limit :: "int option"
  u_remaining :: "int option"

record usage_stats =
  materials :: usage
  quizzes :: usage
  writings :: usage

definition getUserUsageStats :: "world \<Rightarrow> string \<Rightarrow> (store_error + usage_stats) \<times> world" where
  "getUserUsageStats w userId =
     (case checkMaterialLimit w userId of
        (Inl e, w1) \<Rightarrow> (Inl e, w1)
      | (Inr materialCheck, w1) \<Rightarrow>
     (case checkQuizLimit w1 userId of
        (Inl e, w2) \<Rightarrow> (Inl e, w2)
      | (Inr quizCheck, w2) \<Rightarrow>
     (case checkWritingLimit w2 userId of
        (Inl e, w3) \<Rightarrow> (Inl e, w3)
      | (Inr writingCheck, w3) \<Rightarrow>
          (Inr \<lparr>materials = \<lparr>used = current materialCheck, u_limit = limit materialCheck,
                   u_remaining = (if allowed materialCheck then remaining materialCheck else Some 0)\<rparr>,
                 quizzes = \<lparr>used = current quizCheck, u_limit = limit quizCheck,
                   u_remaining = (if allowed quizCheck then remaining quizCheck else Some 0)\<rparr>,
                 writings = \<lparr>used = current writingCheck, u_limit = limit writingCheck,
                   u_remaining = (if allowed writingCheck then remaining writingCheck else Some 0)\<rparr>\<rparr>,
           w3))))"

section \<open>What the counters are meant to count\<close>

text \<open>
  The windows and counts in the words of the specification, to compare the checks with.
  A record belongs to a user when its \<^verbatim>\<open>userId\<close> field is that user's identifier;
  it falls into a window when the named field holds a timestamp at or after the start of
  the window. The month starts at local midnight of day 1 of the month of \<open>now\<close>, the
  day at local midnight of the day of \<open>now\<close>.
\<close>

definition owned_by :: "string \<Rightarrow> doc \<Rightarrow> bool" where
  "owned_by u d = (d ''userId'' = Some (FString u))"

definition stamped_from :: "string \<Rightarrow> int \<Rightarrow> doc \<Rightarrow> bool" where
  "stamped_from f t d = (case d f of Some (FTimestamp s) \<Rightarrow> t \<le> s | _ \<Rightarrow> False)"

definition month_start :: "world \<Rightarrow> int \<Rightarrow> int" where
  "month_start w now = localDate w (getFullYear w now) (getMonth w now) 1"

definition day_start :: "world \<Rightarrow> int \<Rightarrow> int" where
  "day_start w now = localDate w (getFullYear w now) (getMonth w now) (getDate w now)"

definition next_now :: "world \<Rightarrow> int" where
  "next_now w = clock w (clock_reads w)"

definition materials_count :: "world \<Rightarrow> string \<Rightarrow> int" where
  "materials_count w u = int (length (filter (owned_by u) (collections w ''study_materials'')))"

definition quizzes_since :: "world \<Rightarrow> string \<Rightarrow> int \<Rightarrow> int" where
  "quizzes_since w u start =
     int (length (filter (\<lambda>d. owned_by u d \<and> stamped_from ''completedAt'' (Timestamp_fromDate start) d)
                    (collections w ''quiz_results'')))"

definition writings_since :: "world \<Rightarrow> string \<Rightarrow> int \<Rightarrow> int" where
  "writings_since w u start =
     int (length (filter (\<lambda>d. owned_by u d \<and> stamped_from ''createdAt'' (Timestamp_fromDate start) d)
                    (collections w ''ai_writings'')))"

definition quizzes_count :: "world \<Rightarrow> string \<Rightarrow> int" where
  "quizzes_count w u = quizzes_since w u (month_start w (next_now w))"

definition writings_count :: "world \<Rightarrow> string \<Rightarrow> int" where
  "writings_count w u = writings_since w u (day_start w (next_now w))"

section \<open>A sample host and sample stores\<close>

text \<open>
  A host whose local time zone is UTC, for the Gregorian calendar: the day number of an
  instant, the civil date of a day number and back. \<open>utc_getMonth\<close> counts from 0 and
  \<open>utc_localDate\<close> takes such a month, as the \<^verbatim>\<open>Date\<close> of JavaScript does.
\<close>

definition civil_from_days :: "int \<Rightarrow> int \<times> int \<times> int" where
  "civil_from_days z0 =
     (let z = z0 + 719468;
          era = z div 146097;
          doe = z mod 146097;
          yoe = (doe - doe div 1460 + doe div 36524 - doe div 146096) div 365;
          doy = doe - (365 * yoe + yoe div 4 - yoe div 100);
          mp = (5 * doy + 2) div 153;
          d = doy - (153 * mp + 2) div 5 + 1;
          m = (if mp < 10 then mp + 3 else mp - 9);
          y = yoe + era * 400
      in (if m \<le> 2 then y + 1 else y, m, d))"

definition days_from_civil :: "int \<Rightarrow> int \<Rightarrow> int \<Rightarrow> int" where
  "days_from_civil y0 m d =
     (let y = (if m \<le> 2 then y0 - 1 else y0);
          era = y div 400;
          yoe = y mod 400;
          doy = (153 * (if m > 2 then m - 3 else m + 9) + 2) div 5 + d - 1;
          doe = yoe * 365 + yoe div 4 - yoe div 100 + doy
      in era * 146097 + doe - 719468)"

definition utc_getFullYear :: "int \<Rightarrow> int" where
  "utc_getFullYear ms = fst (civil_from_days (ms div 86400000))"

definition utc_getMonth :: "int \<Rightarrow> int" where
  "utc_getMonth ms = fst (snd (civil_from_days (ms div 86400000))) - 1"

definition utc_getDate :: "int \<Rightarrow> int" where
  "utc_getDate ms = snd (snd (civil_from_days (ms div 86400000)))"

definition utc_localDate :: "int \<Rightarrow> int \<Rightarrow> int \<Rightarrow> int" where
  "utc_localDate y m d = days_from_civil y (m + 1) d * 86400000"

definition utc_world :: "(string \<Rightarrow> doc list) \<Rightarrow> (nat \<Rightarrow> store_error option) \<Rightarrow> (nat \<Rightarrow> int) \<Rightarrow> world" where
  "utc_world cs fs ck =
     \<lparr>collections = cs, faults = fs, clock = ck, getFullYear = utc_getFullYear,
      getMonth = utc_getMonth, getDate = utc_getDate, localDate = utc_localDate, trace = []\<rparr>"

text \<open>Records as the application writes them.\<close>

definition material_of :: "string \<Rightarrow> doc" where
  "material_of u = [''userId'' \<mapsto> FString u]"

definition quiz_result_of :: "string \<Rightarrow> int \<Rightarrow> doc" where
  "quiz_result_of u ms = [''userId'' \<mapsto> FString u, ''completedAt'' \<mapsto> FTimestamp (Timestamp_fromDate ms)]"

definition ai_writing_of :: "string \<Rightarrow> int \<Rightarrow> doc" where
  "ai_writing_of u ms = [''userId'' \<mapsto> FString u, ''createdAt'' \<mapsto> FTimestamp (Timestamp_fromDate ms)]"

text \<open>
  Instants of the autumn of 2026, in milliseconds since the epoch:
  1790812799999 is 2026-09-30 23:59:59.999, 1790812800000 is 2026-10-01 00:00:00.000,
  1793404800000 is 2026-10-31 00:00:00.000, 1793491199999 is 2026-10-31 23:59:59.999 and
  1793491200000 is 2026-11-01 00:00:00.000.

  In the sample store, ann has three study materials, five quiz results of October 2026
  (the first at the very start of the month) and one of the last millisecond of
  September, and one writing of 31 October; bob has one study material, one quiz result
  of October and no writing.
\<close>

definition sample_store :: "string \<Rightarrow> doc list" where
  "sample_store c =
     (if c = ''study_materials'' then
        [material_of ''ann'', material_of ''bob'', material_of ''ann'', material_of ''ann'']
      else if c = ''quiz_results'' then
        [quiz_result_of ''ann'' 1790812799999, quiz_result_of ''ann'' 1790812800000,
         quiz_result_of ''ann'' 1790812800001, quiz_result_of ''bob'' 1791000000000,
         quiz_result_of ''ann'' 1792000000000, quiz_result_of ''ann'' 1793000000000,
         quiz_result_of ''ann'' 1793404800000]
      else if c = ''ai_writings'' then
        [ai_writing_of ''ann'' 1793404800000]
      else [])"

definition no_faults :: "nat \<Rightarrow> store_error option" where
  "no_faults k = None"

definition late_october :: "nat \<Rightarrow> int" where
  "late_october k = 1793491199999"

definition month_turns :: "nat \<Rightarrow> int" where
  "month_turns k = (if k = 0 then 1793491199999 else 1793491200000)"

definition sample_world :: world where
  "sample_world = utc_world sample_store no_faults late_october"

definition turning_world :: world where
  "turning_world = utc_world sample_store no_faults month_turns"

definition fault_at :: "nat \<Rightarrow> nat \<Rightarrow> store_error option" where
  "fault_at n k = (if k = n then Some (StoreError ''unavailable'') else None)"

definition failing_world :: "nat \<Rightarrow> world" where
  "failing_world n = utc_world sample_store (fault_at n) late_october"

section \<open>The trace and the store: basic facts\<close>

lemma log_event_fields [simp]:
  "collections (log_event e w) = collections w"
  "faults (log_event e w) = faults w"
  "clock (log_event e w) = clock w"
  "getFullYear (log_event e w) = getFullYear w"
  "getMonth (log_event e w) = getMonth w"
  "getDate (log_event e w) = getDate w"
  "localDate (log_event e w) = localDate w"
  "trace (log_event e w) = trace w @ [e]"
  by (simp_all add: log_event_def)

lemma queries_issued_log [simp]:
  "queries_issued (log_event e w) = (if is_GetDocs e then Suc (queries_issued w) else queries_issued w)"
  by (simp add: queries_issued_def)

lemma clock_reads_log [simp]:
  "clock_reads (log_event e w) = (if is_NewDate e then Suc (clock_reads w) else clock_reads w)"
  by (simp add: clock_reads_def)

lemma plan_lookups_log [simp]:
  "plan_lookups (log_event e w) = (if is_PlanLookup e then Suc (plan_lookups w) else plan_lookups w)"
  by (simp add: plan_lookups_def)

lemma month_start_log [simp]: "month_start (log_event e w) t = month_start w t"
  by (simp add: month_start_def)

lemma day_start_log [simp]: "day_start (log_event e w) t = day_start w t"
  by (simp add: day_start_def)

lemma materials_count_log [simp]: "materials_count (log_event e w) u = materials_count w u"
  by (simp add: materials_count_def)

lemma quizzes_since_log [simp]: "quizzes_since (log_event e w) u s = quizzes_since w u s"
  by (simp add: quizzes_since_def)

lemma writings_since_log [simp]: "writings_since (log_event e w) u s = writings_since w u s"
  by (simp add: writings_since_def)

lemma size_materials_snapshot:
  "length (run_query (collections w) (Query ''study_materials'' [WhereEq ''userId'' (FString u)]))
     = length (filter (owned_by u) (collections w ''study_materials''))"
  by (simp add: owned_by_def [abs_def])

lemma size_quizzes_snapshot:
  "int (length (run_query (collections w)
      (Query ''quiz_results'' [WhereEq ''userId'' (FString u), WhereGe ''completedAt'' (Timestamp_fromDate s)])))
     = quizzes_since w u s"
  by (simp add: quizzes_since_def owned_by_def stamped_from_def)

lemma size_writings_snapshot:
  "int (length (run_query (collections w)
      (Query ''ai_writings'' [WhereEq ''userId'' (FString u), WhereGe ''createdAt'' (Timestamp_fromDate s)])))
     = writings_since w u s"
  by (simp add: writings_since_def owned_by_def stamped_from_def)

lemma getDocs_ok:
  "faults w (queries_issued w) = None \<Longrightarrow>
     getDocs q w = (Inr (run_query (collections w) q), log_event (GetDocs q) w)"
  by (simp add: getDocs_def)

lemma getDocs_fail:
  "faults w (queries_issued w) = Some e \<Longrightarrow> getDocs q w = (Inl e, log_event (GetDocs q) w)"
  by (simp add: getDocs_def)

section \<open>What each check returns\<close>

lemma Number_toString_limits:
  "Number_toString 3 = ''3''" "Number_toString 5 = ''5''" "Number_toString 1 = ''1''"
  by (code_simp, code_simp, code_simp)

lemma checkMaterialLimit_ok:
  assumes "faults w (queries_issued w) = None"
  shows "checkMaterialLimit w u =
    (Inr (if materials_count w u \<ge> 3 then
            \<lparr>allowed = False,
             reason = Some ''You've reached the free plan limit of 3 study materials.'',
             current = Some (materials_count w u), limit = Some 3, remaining = None,
             upgradeMessage = Some ''Upgrade to Starter ($10/month) for 20 materials or Pro ($20/month) for unlimited!''\<rparr>
          else \<lparr>allowed = True, reason = None, current = Some (materials_count w u), limit = Some 3,
                 remaining = Some (3 - materials_count w u), upgradeMessage = None\<rparr>),
     log_event (GetDocs (Query ''study_materials'' [WhereEq ''userId'' (FString u)])) w)"
  using assms
  by (simp add: checkMaterialLimit_def getDocs_ok size_materials_snapshot FREE_LIMITS_def
      Number_toString_limits Let_def materials_count_def del: run_query.simps)


lemma checkMaterialLimit_fail:
  assumes "faults w (queries_issued w) = Some e"
  shows "checkMaterialLimit w u =
    (Inl e, log_event (GetDocs (Query ''study_materials'' [WhereEq ''userId'' (FString u)])) w)"
  using assms by (simp add: checkMaterialLimit_def getDocs_fail)

lemma checkQuizLimit_ok:
  assumes "faults w (queries_issued w) = None"
  shows "checkQuizLimit w u =
    (Inr (if quizzes_count w u \<ge> 5 then
            \<lparr>allowed = False,
             reason = Some ''You've taken 5 quizzes this month (free plan limit).'',
             current = Some (quizzes_count w u), limit = Some 5, remaining = None,
             upgradeMessage = Some ''Upgrade to Starter or Pro for unlimited quizzes!''\<rparr>
          else \<lparr>allowed = True, reason = None, current = Some (quizzes_count w u), limit = Some 5,
                 remaining = Some (5 - quizzes_count w u), upgradeMessage = None\<rparr>),
     log_event (GetDocs (Query ''quiz_results''
        [WhereEq ''userId'' (FString u),
         WhereGe ''completedAt'' (Timestamp_fromDate (month_start w (next_now w)))]))
       (log_event NewDate w))"
  using assms
  by (simp add: checkQuizLimit_def new_Date_def getDocs_ok size_quizzes_snapshot FREE_LIMITS_def
      Number_toString_limits Let_def quizzes_count_def next_now_def
      month_start_def [symmetric] del: run_query.simps)

lemma checkQuizLimit_fail:
  assumes "faults w (queries_issued w) = Some e"
  shows "checkQuizLimit w u =
    (Inl e, log_event (GetDocs (Query ''quiz_results''
        [WhereEq ''userId'' (FString u),
         WhereGe ''completedAt'' (Timestamp_fromDate (month_start w (next_now w)))]))
       (log_event NewDate w))"
  using assms
  by (simp add: checkQuizLimit_def new_Date_def getDocs_fail Let_def next_now_def
      month_start_def [symmetric])

lemma checkWritingLimit_ok:
  assumes "faults w (queries_issued w) = None"
  shows "checkWritingLimit w u =
    (Inr (if writings_count w u \<ge> 1 then
            \<lparr>allowed = False,
             reason = Some ''You've used your 1 AI writing for today (free plan limit).'',
             current = Some (writings_count w u), limit = Some 1, remaining = None,
             upgradeMessage = Some ''Upgrade to Starter for 10 writings/day or Pro for unlimited!''\<rparr>
          else \<lparr>allowed = True, reason = None, current = Some (writings_count w u), limit = Some 1,
                 remaining = Some (1 - writings_count w u), upgradeMessage = None\<rparr>),
     log_event (GetDocs (Query ''ai_writings''
        [WhereEq ''userId'' (FString u),
         WhereGe ''createdAt'' (Timestamp_fromDate (day_start w (next_now w)))]))
       (log_event NewDate w))"
  using assms
  by (simp add: checkWritingLimit_def new_Date_def getDocs_ok size_writings_snapshot FREE_LIMITS_def
      Number_toString_limits Let_def writings_count_def next_now_def
      day_start_def [symmetric] del: run_query.simps)

lemma checkWritingLimit_fail:
  assumes "faults w (queries_issued w) = Some e"
  shows "checkWritingLimit w u =
    (Inl e, log_event (GetDocs (Query ''ai_writings''
        [WhereEq ''userId'' (FString u),
         WhereGe ''createdAt'' (Timestamp_fromDate (day_start w (next_now w)))]))
       (log_event NewDate w))"
  using assms
  by (simp add: checkWritingLimit_def new_Date_def getDocs_fail Let_def next_now_def
      day_start_def [symmetric])

section \<open>The sample host and store, evaluated\<close>

lemma utc_late_october:
  "utc_getFullYear 1793491199999 = 2026" "utc_getMonth 1793491199999 = 9"
  "utc_getDate 1793491199999 = 31"
  by (code_simp, code_simp, code_simp)

lemma utc_november_first:
  "utc_getFullYear 1793491200000 = 2026" "utc_getMonth 1793491200000 = 10"
  "utc_getDate 1793491200000 = 1"
  by (code_simp, code_simp, code_simp)

lemma utc_midnights:
  "utc_localDate 2026 9 1 = 1790812800000" "utc_localDate 2026 9 31 = 1793404800000"
  "utc_localDate 2026 10 1 = 1793491200000"
  by (code_simp, code_simp, code_simp)

lemma utc_world_fields [simp]:
  "collections (utc_world cs fs ck) = cs" "faults (utc_world cs fs ck) = fs"
  "clock (utc_world cs fs ck) = ck" "getFullYear (utc_world cs fs ck) = utc_getFullYear"
  "getMonth (utc_world cs fs ck) = utc_getMonth" "getDate (utc_world cs fs ck) = utc_getDate"
  "localDate (utc_world cs fs ck) = utc_localDate" "trace (utc_world cs fs ck) = []"
  by (simp_all add: utc_world_def)

lemma utc_world_fresh [simp]:
  "queries_issued (utc_world cs fs ck) = 0" "clock_reads (utc_world cs fs ck) = 0"
  "plan_lookups (utc_world cs fs ck) = 0"
  by (simp_all add: queries_issued_def clock_reads_def plan_lookups_def)

lemma sample_month_start:
  "month_start (utc_world cs fs ck) 1793491199999 = 1790812800000"
  "month_start (utc_world cs fs ck) 1793491200000 = 1793491200000"
  by (simp_all add: month_start_def utc_late_october utc_november_first utc_midnights)

lemma sample_day_start:
  "day_start (utc_world cs fs ck) 1793491199999 = 1793404800000"
  "day_start (utc_world cs fs ck) 1793491200000 = 1793491200000"
  by (simp_all add: day_start_def utc_late_october utc_november_first utc_midnights)

lemma sample_materials:
  "materials_count (utc_world sample_store fs ck) ''ann'' = 3"
  "materials_count (utc_world sample_store fs ck) ''bob'' = 1"
  "materials_count (utc_world sample_store fs ck) ''eve'' = 0"
  by (simp_all add: materials_count_def sample_store_def owned_by_def material_of_def)

lemma sample_quizzes:
  "quizzes_since (utc_world sample_store fs ck) ''ann'' 1790812800000 = 5"
  "quizzes_since (utc_world sample_store fs ck) ''bob'' 1790812800000 = 1"
  "quizzes_since (utc_world sample_store fs ck) ''eve'' 1790812800000 = 0"
  "quizzes_since (utc_world sample_store fs ck) ''ann'' 1793491200000 = 0"
  by (simp_all add: quizzes_since_def sample_store_def owned_by_def stamped_from_def
      quiz_result_of_def Timestamp_fromDate_def)

lemma sample_writings:
  "writings_since (utc_world sample_store fs ck) ''ann'' 1793404800000 = 1"
  "writings_since (utc_world sample_store fs ck) ''bob'' 1793404800000 = 0"
  "writings_since (utc_world sample_store fs ck) ''eve'' 1793404800000 = 0"
  by (simp_all add: writings_since_def sample_store_def owned_by_def stamped_from_def
      ai_writing_of_def Timestamp_fromDate_def)

lemma sample_counts:
  "materials_count sample_world ''ann'' = 3" "materials_count sample_world ''bob'' = 1"
  "materials_count sample_world ''eve'' = 0"
  "quizzes_count sample_world ''ann'' = 5" "quizzes_count sample_world ''bob'' = 1"
  "quizzes_count sample_world ''eve'' = 0"
  "writings_count sample_world ''ann'' = 1" "writings_count sample_world ''bob'' = 0"
  "writings_count sample_world ''eve'' = 0"
  by (simp_all add: quizzes_count_def writings_count_def sample_world_def next_now_def
      late_october_def sample_month_start sample_day_start sample_quizzes sample_writings
      sample_materials)

section \<open>The evaluator on the free plan\<close>

lemma counts_after_lookup [simp]:
  "quizzes_count (log_event (PlanLookup p) w) u = quizzes_count w u"
  "writings_count (log_event (PlanLookup p) w) u = writings_count w u"
  "next_now (log_event (PlanLookup p) w) = next_now w"
  by (simp_all add: quizzes_count_def writings_count_def next_now_def)

lemma canUserPerformAction_gated:
  "canUserPerformAction w u ''upload_material'' = checkMaterialLimit (log_event (PlanLookup u) w) u"
  "canUserPerformAction w u ''take_quiz'' = checkQuizLimit (log_event (PlanLookup u) w) u"
  "canUserPerformAction w u ''ai_writing'' = checkWritingLimit (log_event (PlanLookup u) w) u"
  by (simp_all add: canUserPerformAction_def canUserPerformAction_plan_def getUserPlan_def)

text \<open>
  Claim C1. Every user is on the free plan. For each of the three gated actions, when the
  store answers the query, \<open>canUserPerformAction\<close> returns a decision that is denied if and
  only if the number of the user's records in the window of the action has reached the
  limit of the action: a count equal to the limit is denied, a count below it is allowed.
\<close>

theorem denied_iff_count_reaches_limit:
  assumes "faults w (queries_issued w) = None"
  shows "(\<exists>d w'. canUserPerformAction w u ''upload_material'' = (Inr d, w') \<and>
            (\<not> allowed d) = (materials_count w u \<ge> studyMaterials FREE_LIMITS))
       \<and> (\<exists>d w'. canUserPerformAction w u ''take_quiz'' = (Inr d, w') \<and>
            (\<not> allowed d) = (quizzes_count w u \<ge> quizzesPerMonth FREE_LIMITS))
       \<and> (\<exists>d w'. canUserPerformAction w u ''ai_writing'' = (Inr d, w') \<and>
            (\<not> allowed d) = (writings_count w u \<ge> aiWritingsPerDay FREE_LIMITS))"
proof -
  let ?w = "log_event (PlanLookup u) w"
  have ok: "faults ?w (queries_issued ?w) = None"
    using assms by simp
  have m: "\<exists>d w'. canUserPerformAction w u ''upload_material'' = (Inr d, w') \<and>
            (\<not> allowed d) = (materials_count w u \<ge> studyMaterials FREE_LIMITS)"
    by (simp add: canUserPerformAction_gated checkMaterialLimit_ok [OF ok] FREE_LIMITS_def)
  have q: "\<exists>d w'. canUserPerformAction w u ''take_quiz'' = (Inr d, w') \<and>
            (\<not> allowed d) = (quizzes_count w u \<ge> quizzesPerMonth FREE_LIMITS)"
    by (simp add: canUserPerformAction_gated checkQuizLimit_ok [OF ok] FREE_LIMITS_def)
  have a: "\<exists>d w'. canUserPerformAction w u ''ai_writing'' = (Inr d, w') \<and>
            (\<not> allowed d) = (writings_count w u \<ge> aiWritingsPerDay FREE_LIMITS)"
    by (simp add: canUserPerformAction_gated checkWritingLimit_ok [OF ok] FREE_LIMITS_def)
  from m q a show ?thesis by blast
qed

lemma sample_world_sound: "faults sample_world (queries_issued sample_world) = None"
  by (simp add: sample_world_def no_faults_def)

theorem denied_iff_count_reaches_limit_witness:
  "faults sample_world (queries_issued sample_world) = None
   \<and> (\<exists>d w'. canUserPerformAction sample_world ''ann'' ''upload_material'' = (Inr d, w') \<and> \<not> allowed d)
   \<and> (\<exists>d w'. canUserPerformAction sample_world ''ann'' ''take_quiz'' = (Inr d, w') \<and> \<not> allowed d)
   \<and> (\<exists>d w'. canUserPerformAction sample_world ''ann'' ''ai_writing'' = (Inr d, w') \<and> \<not> allowed d)
   \<and> (\<exists>d w'. canUserPerformAction sample_world ''bob'' ''upload_material'' = (Inr d, w') \<and> allowed d)
   \<and> (\<exists>d w'. canUserPerformAction sample_world ''bob'' ''take_quiz'' = (Inr d, w') \<and> allowed d)
   \<and> (\<exists>d w'. canUserPerformAction sample_world ''bob'' ''ai_writing'' = (Inr d, w') \<and> allowed d)"
  using denied_iff_count_reaches_limit [OF sample_world_sound, of "''ann''"]
    denied_iff_count_reaches_limit [OF sample_world_sound, of "''bob''"]
  by (simp add: sample_world_sound sample_counts FREE_LIMITS_def)




section \<open>The shape of a decision\<close>

text \<open>
  Claim C3. A decision that any of the three counters returns carries \<open>current\<close> and
  \<open>limit\<close>; when it is allowed, \<open>remaining\<close> is \<open>max (limit - current) 0\<close>, which is
  \<open>limit - current\<close> since \<open>current < limit\<close>; when it is denied, \<open>current \<ge> limit\<close>.
\<close>

theorem decision_invariant:
  assumes "checkMaterialLimit w u = (Inr d, w') \<or> checkQuizLimit w u = (Inr d, w')
           \<or> checkWritingLimit w u = (Inr d, w')"
  shows "\<exists>c l. current d = Some c \<and> limit d = Some l \<and>
           (if allowed d then remaining d = Some (max (l - c) 0) \<and> remaining d = Some (l - c) \<and> c < l
            else c \<ge> l)"
proof (cases "faults w (queries_issued w)")
  case None
  from assms show ?thesis
    unfolding checkMaterialLimit_ok [OF None] checkQuizLimit_ok [OF None] checkWritingLimit_ok [OF None]
    by (auto split: if_splits)
next
  case (Some e)
  from assms show ?thesis
    unfolding checkMaterialLimit_fail [OF Some] checkQuizLimit_fail [OF Some] checkWritingLimit_fail [OF Some]
    by simp
qed


theorem decision_invariant_witness:
  "(\<exists>d w'. checkMaterialLimit sample_world ''bob'' = (Inr d, w') \<and> allowed d \<and>
       current d = Some 1 \<and> limit d = Some 3 \<and> remaining d = Some (max (3 - 1) 0))
   \<and> (\<exists>d w'. checkQuizLimit sample_world ''ann'' = (Inr d, w') \<and> \<not> allowed d \<and>
       current d = Some 5 \<and> limit d = Some 5)"
proof -
  obtain d w' where e: "checkMaterialLimit sample_world ''bob'' = (Inr d, w')"
    and d: "allowed d" "current d = Some 1" "limit d = Some 3"
    by (simp add: checkMaterialLimit_ok [OF sample_world_sound] sample_counts)
  obtain d2 w2 where e2: "checkQuizLimit sample_world ''ann'' = (Inr d2, w2)"
    and d2: "\<not> allowed d2" "current d2 = Some 5" "limit d2 = Some 5"
    by (simp add: checkQuizLimit_ok [OF sample_world_sound] sample_counts)
  from decision_invariant [OF disjI1 [OF e]] d
  have "remaining d = Some (max (3 - 1) 0)" by simp
  moreover from decision_invariant [OF disjI2 [OF disjI1 [OF e2]]] d2
  have "current d2 = Some 5 \<and> limit d2 = Some 5" by simp
  ultimately show ?thesis using e d e2 d2 by simp
qed

section \<open>Paid plans and ungated actions\<close>

text \<open>
  Claim C4. When the resolved plan is not \<^verbatim>\<open>'free'\<close>, the evaluator returns
  \<^verbatim>\<open>{ allowed: true }\<close> with no other property, for every action and every content of
  the store, and leaves the world as it was: no query is sent. The plan is the argument of
  \<open>canUserPerformAction_plan\<close>, the body of the evaluator after the plan has been
  resolved.
\<close>

theorem paid_plan_unlimited:
  assumes "userPlan \<noteq> ''free''"
  shows "canUserPerformAction_plan userPlan w u a =
           (Inr \<lparr>allowed = True, reason = None, current = None, limit = None, remaining = None,
                 upgradeMessage = None\<rparr>, w)"
  using assms by (simp add: canUserPerformAction_plan_def allowed_only_def)

theorem paid_plan_unlimited_witness:
  "''pro'' \<noteq> ''free'' \<and> materials_count sample_world ''ann'' = 3 \<and>
   canUserPerformAction_plan ''pro'' sample_world ''ann'' ''upload_material'' =
     (Inr \<lparr>allowed = True, reason = None, current = None, limit = None, remaining = None,
           upgradeMessage = None\<rparr>, sample_world)"
proof -
  have h: "''pro'' \<noteq> ''free''" by simp
  from paid_plan_unlimited [OF h, of sample_world "''ann''" "''upload_material''"] h
  show ?thesis by (simp add: sample_counts)
qed

text \<open>
  Claim C5. For \<^verbatim>\<open>generate_questions\<close> and for every action that is none of the four
  the \<^verbatim>\<open>switch\<close> names, whatever the plan, the evaluator returns
  \<^verbatim>\<open>{ allowed: true }\<close> and sends no query: nothing is counted, the questions of a
  material included. The whole function only adds its plan lookup to the trace.
\<close>

theorem ungated_actions_allowed:
  assumes "a = ''generate_questions'' \<or>
           a \<notin> {''upload_material'', ''take_quiz'', ''ai_writing'', ''generate_questions''}"
  shows "canUserPerformAction_plan userPlan w u a =
           (Inr \<lparr>allowed = True, reason = None, current = None, limit = None, remaining = None,
                 upgradeMessage = None\<rparr>, w)
       \<and> canUserPerformAction w u a =
           (Inr \<lparr>allowed = True, reason = None, current = None, limit = None, remaining = None,
                 upgradeMessage = None\<rparr>, log_event (PlanLookup u) w)
       \<and> queries_issued (snd (canUserPerformAction w u a)) = queries_issued w"
  using assms
  by (auto simp: canUserPerformAction_def canUserPerformAction_plan_def getUserPlan_def
      allowed_only_def)

theorem ungated_actions_allowed_witness:
  "canUserPerformAction sample_world ''ann'' ''generate_questions'' =
     (Inr \<lparr>allowed = True, reason = None, current = None, limit = None, remaining = None,
           upgradeMessage = None\<rparr>, log_event (PlanLookup ''ann'') sample_world)
   \<and> ''delete_account'' \<notin> {''upload_material'', ''take_quiz'', ''ai_writing'', ''generate_questions''}
   \<and> canUserPerformAction_plan ''starter'' sample_world ''ann'' ''delete_account'' =
     (Inr \<lparr>allowed = True, reason = None, current = None, limit = None, remaining = None,
           upgradeMessage = None\<rparr>, sample_world)"
proof -
  have h: "''delete_account'' \<notin> {''upload_material'', ''take_quiz'', ''ai_writing'', ''generate_questions''}"
    by simp
  from ungated_actions_allowed [OF disjI1 [OF refl], of "''free''" sample_world "''ann''"]
    ungated_actions_allowed [OF disjI2 [OF h], of "''starter''" sample_world "''ann''"] h
  show ?thesis by simp
qed

section \<open>Usage statistics\<close>

lemma check_worlds:
  "snd (checkMaterialLimit w u) =
     log_event (GetDocs (Query ''study_materials'' [WhereEq ''userId'' (FString u)])) w"
  "snd (checkQuizLimit w u) =
     log_event (GetDocs (Query ''quiz_results''
        [WhereEq ''userId'' (FString u),
         WhereGe ''completedAt'' (Timestamp_fromDate (month_start w (next_now w)))]))
       (log_event NewDate w)"
  "snd (checkWritingLimit w u) =
     log_event (GetDocs (Query ''ai_writings''
        [WhereEq ''userId'' (FString u),
         WhereGe ''createdAt'' (Timestamp_fromDate (day_start w (next_now w)))]))
       (log_event NewDate w)"
  by (cases "faults w (queries_issued w)";
      simp add: checkMaterialLimit_ok checkMaterialLimit_fail checkQuizLimit_ok checkQuizLimit_fail
        checkWritingLimit_ok checkWritingLimit_fail)+

lemma check_effects [simp]:
  "queries_issued (snd (checkMaterialLimit w u)) = Suc (queries_issued w)"
  "queries_issued (snd (checkQuizLimit w u)) = Suc (queries_issued w)"
  "queries_issued (snd (checkWritingLimit w u)) = Suc (queries_issued w)"
  "plan_lookups (snd (checkMaterialLimit w u)) = plan_lookups w"
  "plan_lookups (snd (checkQuizLimit w u)) = plan_lookups w"
  "plan_lookups (snd (checkWritingLimit w u)) = plan_lookups w"
  "clock_reads (snd (checkMaterialLimit w u)) = clock_reads w"
  "clock_reads (snd (checkQuizLimit w u)) = Suc (clock_reads w)"
  "clock_reads (snd (checkWritingLimit w u)) = Suc (clock_reads w)"
  by (simp_all add: check_worlds)

lemma check_frame [simp]:
  "faults (snd (checkMaterialLimit w u)) = faults w"
  "faults (snd (checkQuizLimit w u)) = faults w"
  "faults (snd (checkWritingLimit w u)) = faults w"
  "collections (snd (checkMaterialLimit w u)) = collections w"
  "collections (snd (checkQuizLimit w u)) = collections w"
  "collections (snd (checkWritingLimit w u)) = collections w"
  "clock (snd (checkMaterialLimit w u)) = clock w"
  "clock (snd (checkQuizLimit w u)) = clock w"
  "clock (snd (checkWritingLimit w u)) = clock w"
  by (simp_all add: check_worlds)

lemma check_succeeds:
  assumes "faults w (queries_issued w) = None"
  shows "\<exists>d. checkMaterialLimit w u = (Inr d, snd (checkMaterialLimit w u))"
    and "\<exists>d. checkQuizLimit w u = (Inr d, snd (checkQuizLimit w u))"
    and "\<exists>d. checkWritingLimit w u = (Inr d, snd (checkWritingLimit w u))"
  by (simp_all add: checkMaterialLimit_ok [OF assms] checkQuizLimit_ok [OF assms]
      checkWritingLimit_ok [OF assms])

lemma check_fails:
  assumes "faults w (queries_issued w) = Some e"
  shows "fst (checkMaterialLimit w u) = Inl e"
    and "fst (checkQuizLimit w u) = Inl e"
    and "fst (checkWritingLimit w u) = Inl e"
  by (simp_all add: checkMaterialLimit_fail [OF assms] checkQuizLimit_fail [OF assms]
      checkWritingLimit_fail [OF assms])

text \<open>
  Claim C6. \<open>getUserUsageStats\<close> runs the three counters one after the other, whatever the
  plan: it sends three queries and never looks the plan up. When the store answers all
  three, each entry of the result takes \<open>used\<close> and \<open>limit\<close> from the decision of its
  counter, and \<open>remaining\<close> is the remaining of the decision when it is allowed and 0 when
  it is denied. A user with no record in any of the three windows gets \<open>used\<close> 0 and
  \<open>remaining\<close> equal to the limit in all three entries.
\<close>

theorem usage_stats_from_counters:
  assumes "faults w (queries_issued w) = None"
      and "faults w (Suc (queries_issued w)) = None"
      and "faults w (Suc (Suc (queries_issued w))) = None"
  shows "\<exists>m q r w1 w2 w3.
           checkMaterialLimit w u = (Inr m, w1) \<and> checkQuizLimit w1 u = (Inr q, w2)
         \<and> checkWritingLimit w2 u = (Inr r, w3)
         \<and> getUserUsageStats w u =
             (Inr \<lparr>materials = \<lparr>used = current m, u_limit = limit m,
                      u_remaining = (if allowed m then remaining m else Some 0)\<rparr>,
                   quizzes = \<lparr>used = current q, u_limit = limit q,
                      u_remaining = (if allowed q then remaining q else Some 0)\<rparr>,
                   writings = \<lparr>used = current r, u_limit = limit r,
                      u_remaining = (if allowed r then remaining r else Some 0)\<rparr>\<rparr>, w3)
         \<and> plan_lookups w3 = plan_lookups w
         \<and> queries_issued w3 = queries_issued w + 3
         \<and> (materials_count w u = 0 \<and> quizzes_count w1 u = 0 \<and> writings_count w2 u = 0 \<longrightarrow>
              fst (getUserUsageStats w u) =
                Inr \<lparr>materials = \<lparr>used = Some 0, u_limit = Some 3, u_remaining = Some 3\<rparr>,
                     quizzes = \<lparr>used = Some 0, u_limit = Some 5, u_remaining = Some 5\<rparr>,
                     writings = \<lparr>used = Some 0, u_limit = Some 1, u_remaining = Some 1\<rparr>\<rparr>)"
proof -
  define w1 where "w1 = snd (checkMaterialLimit w u)"
  define w2 where "w2 = snd (checkQuizLimit w1 u)"
  define w3 where "w3 = snd (checkWritingLimit w2 u)"
  have f1: "faults w1 (queries_issued w1) = None"
    using assms(2) by (simp add: w1_def)
  have f2: "faults w2 (queries_issued w2) = None"
    using assms(3) by (simp add: w1_def w2_def)
  obtain m where m: "checkMaterialLimit w u = (Inr m, w1)"
    using check_succeeds(1) [OF assms(1)] unfolding w1_def by blast
  obtain q where q: "checkQuizLimit w1 u = (Inr q, w2)"
    using check_succeeds(2) [OF f1] unfolding w2_def by blast
  obtain r where r: "checkWritingLimit w2 u = (Inr r, w3)"
    using check_succeeds(3) [OF f2] unfolding w3_def by blast
  have s: "getUserUsageStats w u =
             (Inr \<lparr>materials = \<lparr>used = current m, u_limit = limit m,
                      u_remaining = (if allowed m then remaining m else Some 0)\<rparr>,
                   quizzes = \<lparr>used = current q, u_limit = limit q,
                      u_remaining = (if allowed q then remaining q else Some 0)\<rparr>,
                   writings = \<lparr>used = current r, u_limit = limit r,
                      u_remaining = (if allowed r then remaining r else Some 0)\<rparr>\<rparr>, w3)"
    by (simp add: getUserUsageStats_def m q r)
  have z: "fst (getUserUsageStats w u) =
                Inr \<lparr>materials = \<lparr>used = Some 0, u_limit = Some 3, u_remaining = Some 3\<rparr>,
                     quizzes = \<lparr>used = Some 0, u_limit = Some 5, u_remaining = Some 5\<rparr>,
                     writings = \<lparr>used = Some 0, u_limit = Some 1, u_remaining = Some 1\<rparr>\<rparr>"
    if "materials_count w u = 0" "quizzes_count w1 u = 0" "writings_count w2 u = 0"
  proof -
    from m that(1) have "current m = Some 0 \<and> limit m = Some 3 \<and> allowed m \<and> remaining m = Some 3"
      by (auto simp: checkMaterialLimit_ok [OF assms(1)])
    moreover from q that(2) have "current q = Some 0 \<and> limit q = Some 5 \<and> allowed q \<and> remaining q = Some 5"
      by (auto simp: checkQuizLimit_ok [OF f1])
    moreover from r that(3) have "current r = Some 0 \<and> limit r = Some 1 \<and> allowed r \<and> remaining r = Some 1"
      by (auto simp: checkWritingLimit_ok [OF f2])
    ultimately show ?thesis by (simp add: s)
  qed
  have p: "plan_lookups w3 = plan_lookups w"
    by (simp add: w1_def w2_def w3_def)
  have n: "queries_issued w3 = queries_issued w + 3"
    by (simp add: w1_def w2_def w3_def)
  from m q r s p n z show ?thesis by blast
qed


lemma sample_world_answers:
  "faults sample_world (queries_issued sample_world) = None"
  "faults sample_world (Suc (queries_issued sample_world)) = None"
  "faults sample_world (Suc (Suc (queries_issued sample_world))) = None"
  by (simp_all add: sample_world_def no_faults_def)

lemma sample_counts_later:
  assumes "w1 = snd (checkMaterialLimit sample_world u)" and "w2 = snd (checkQuizLimit w1 u)"
  shows "quizzes_count w1 ''eve'' = 0" "writings_count w2 ''eve'' = 0"
    "quizzes_count w1 ''ann'' = 5" "writings_count w2 ''ann'' = 1"
  unfolding assms check_worlds
  by (simp_all add: quizzes_count_def writings_count_def next_now_def sample_world_def
      late_october_def sample_month_start sample_day_start sample_quizzes sample_writings)

theorem usage_stats_from_counters_witness:
  "faults sample_world (queries_issued sample_world) = None
   \<and> faults sample_world (Suc (queries_issued sample_world)) = None
   \<and> faults sample_world (Suc (Suc (queries_issued sample_world))) = None
   \<and> materials_count sample_world ''eve'' = 0
   \<and> fst (getUserUsageStats sample_world ''eve'') =
        Inr \<lparr>materials = \<lparr>used = Some 0, u_limit = Some 3, u_remaining = Some 3\<rparr>,
             quizzes = \<lparr>used = Some 0, u_limit = Some 5, u_remaining = Some 5\<rparr>,
             writings = \<lparr>used = Some 0, u_limit = Some 1, u_remaining = Some 1\<rparr>\<rparr>
   \<and> plan_lookups (snd (getUserUsageStats sample_world ''eve'')) = 0
   \<and> queries_issued (snd (getUserUsageStats sample_world ''eve'')) = 3"
proof -
  from usage_stats_from_counters [OF sample_world_answers, of "''eve''"]
  obtain m q r w1 w2 w3 where
    m: "checkMaterialLimit sample_world ''eve'' = (Inr m, w1)" and
    q: "checkQuizLimit w1 ''eve'' = (Inr q, w2)" and
    r: "checkWritingLimit w2 ''eve'' = (Inr r, w3)" and
    s: "getUserUsageStats sample_world ''eve'' =
             (Inr \<lparr>materials = \<lparr>used = current m, u_limit = limit m,
                      u_remaining = (if allowed m then remaining m else Some 0)\<rparr>,
                   quizzes = \<lparr>used = current q, u_limit = limit q,
                      u_remaining = (if allowed q then remaining q else Some 0)\<rparr>,
                   writings = \<lparr>used = current r, u_limit = limit r,
                      u_remaining = (if allowed r then remaining r else Some 0)\<rparr>\<rparr>, w3)" and
    p: "plan_lookups w3 = plan_lookups sample_world" and
    n: "queries_issued w3 = queries_issued sample_world + 3" and
    z: "materials_count sample_world ''eve'' = 0 \<and> quizzes_count w1 ''eve'' = 0
          \<and> writings_count w2 ''eve'' = 0 \<longrightarrow>
        fst (getUserUsageStats sample_world ''eve'') =
          Inr \<lparr>materials = \<lparr>used = Some 0, u_limit = Some 3, u_remaining = Some 3\<rparr>,
               quizzes = \<lparr>used = Some 0, u_limit = Some 5, u_remaining = Some 5\<rparr>,
               writings = \<lparr>used = Some 0, u_limit = Some 1, u_remaining = Some 1\<rparr>\<rparr>"
    by blast
  have w1: "w1 = snd (checkMaterialLimit sample_world ''eve'')" using m by simp
  have w2: "w2 = snd (checkQuizLimit w1 ''eve'')" using q by simp
  note c = sample_counts(3) sample_counts_later(1,2) [OF w1 w2]
  from z c have "fst (getUserUsageStats sample_world ''eve'') =
          Inr \<lparr>materials = \<lparr>used = Some 0, u_limit = Some 3, u_remaining = Some 3\<rparr>,
               quizzes = \<lparr>used = Some 0, u_limit = Some 5, u_remaining = Some 5\<rparr>,
               writings = \<lparr>used = Some 0, u_limit = Some 1, u_remaining = Some 1\<rparr>\<rparr>"
    by blast
  moreover have "plan_lookups sample_world = 0" "queries_issued sample_world = 0"
    by (simp_all add: sample_world_def)
  ultimately show ?thesis
    using sample_world_answers c(1) s p n by simp
qed

section \<open>Failures of the store\<close>

text \<open>
  Claim C7. When the query of a counter fails with an error \<open>e\<close>, the call that ran the
  counter fails with the same \<open>e\<close>: \<open>canUserPerformAction\<close> for each gated action, and
  \<open>getUserUsageStats\<close> whichever of its three queries is the first to fail. No decision is
  put in the place of the error, the failed query is not sent again and the counters after
  it are not run: the number of queries sent is one more than the number of queries that
  were answered.
\<close>

theorem store_failure_propagates:
  "(faults w (queries_issued w) = Some e \<longrightarrow>
        fst (canUserPerformAction w u ''upload_material'') = Inl e
      \<and> queries_issued (snd (canUserPerformAction w u ''upload_material'')) = Suc (queries_issued w)
      \<and> fst (canUserPerformAction w u ''take_quiz'') = Inl e
      \<and> queries_issued (snd (canUserPerformAction w u ''take_quiz'')) = Suc (queries_issued w)
      \<and> fst (canUserPerformAction w u ''ai_writing'') = Inl e
      \<and> queries_issued (snd (canUserPerformAction w u ''ai_writing'')) = Suc (queries_issued w)
      \<and> fst (getUserUsageStats w u) = Inl e
      \<and> queries_issued (snd (getUserUsageStats w u)) = Suc (queries_issued w))
   \<and> (faults w (queries_issued w) = None \<and> faults w (Suc (queries_issued w)) = Some e \<longrightarrow>
        fst (getUserUsageStats w u) = Inl e
      \<and> queries_issued (snd (getUserUsageStats w u)) = Suc (Suc (queries_issued w)))
   \<and> (faults w (queries_issued w) = None \<and> faults w (Suc (queries_issued w)) = None
       \<and> faults w (Suc (Suc (queries_issued w))) = Some e \<longrightarrow>
        fst (getUserUsageStats w u) = Inl e
      \<and> queries_issued (snd (getUserUsageStats w u)) = Suc (Suc (Suc (queries_issued w))))"
proof -
  define w1 where "w1 = snd (checkMaterialLimit w u)"
  define w2 where "w2 = snd (checkQuizLimit w1 u)"
  define w3 where "w3 = snd (checkWritingLimit w2 u)"
  have k: "queries_issued w1 = Suc (queries_issued w)" "faults w1 = faults w"
    "queries_issued w2 = Suc (Suc (queries_issued w))" "faults w2 = faults w"
    "queries_issued w3 = Suc (Suc (Suc (queries_issued w)))"
    by (simp_all add: w1_def w2_def w3_def)
  have a: "fst (canUserPerformAction w u ''upload_material'') = Inl e
      \<and> queries_issued (snd (canUserPerformAction w u ''upload_material'')) = Suc (queries_issued w)
      \<and> fst (canUserPerformAction w u ''take_quiz'') = Inl e
      \<and> queries_issued (snd (canUserPerformAction w u ''take_quiz'')) = Suc (queries_issued w)
      \<and> fst (canUserPerformAction w u ''ai_writing'') = Inl e
      \<and> queries_issued (snd (canUserPerformAction w u ''ai_writing'')) = Suc (queries_issued w)"
    if f: "faults w (queries_issued w) = Some e"
  proof -
    let ?w = "log_event (PlanLookup u) w"
    have "faults ?w (queries_issued ?w) = Some e" using f by simp
    from check_fails [OF this] show ?thesis
      by (simp add: canUserPerformAction_gated)
  qed
  have s0: "fst (getUserUsageStats w u) = Inl e
      \<and> queries_issued (snd (getUserUsageStats w u)) = Suc (queries_issued w)"
    if f: "faults w (queries_issued w) = Some e"
  proof -
    have "checkMaterialLimit w u = (Inl e, w1)"
      using check_fails(1) [OF f] by (simp add: w1_def prod_eq_iff)
    then show ?thesis by (simp add: getUserUsageStats_def k)
  qed
  have s1: "fst (getUserUsageStats w u) = Inl e
      \<and> queries_issued (snd (getUserUsageStats w u)) = Suc (Suc (queries_issued w))"
    if f: "faults w (queries_issued w) = None" "faults w (Suc (queries_issued w)) = Some e"
  proof -
    obtain m where "checkMaterialLimit w u = (Inr m, w1)"
      using check_succeeds(1) [OF f(1)] unfolding w1_def by blast
    moreover have "faults w1 (queries_issued w1) = Some e" using f(2) by (simp add: k)
    then have "checkQuizLimit w1 u = (Inl e, w2)"
      using check_fails(2) by (simp add: w2_def prod_eq_iff)
    ultimately show ?thesis by (simp add: getUserUsageStats_def k)
  qed
  have s2: "fst (getUserUsageStats w u) = Inl e
      \<and> queries_issued (snd (getUserUsageStats w u)) = Suc (Suc (Suc (queries_issued w)))"
    if f: "faults w (queries_issued w) = None" "faults w (Suc (queries_issued w)) = None"
      "faults w (Suc (Suc (queries_issued w))) = Some e"
  proof -
    obtain m where "checkMaterialLimit w u = (Inr m, w1)"
      using check_succeeds(1) [OF f(1)] unfolding w1_def by blast
    moreover have "faults w1 (queries_issued w1) = None" using f(2) by (simp add: k)
    then obtain q where "checkQuizLimit w1 u = (Inr q, w2)"
      using check_succeeds(2) unfolding w2_def by blast
    moreover have "faults w2 (queries_issued w2) = Some e" using f(3) by (simp add: k)
    then have "checkWritingLimit w2 u = (Inl e, w3)"
      using check_fails(3) by (simp add: w3_def prod_eq_iff)
    ultimately show ?thesis by (simp add: getUserUsageStats_def k)
  qed
  from a s0 s1 s2 show ?thesis by blast
qed


lemma failing_world_faults:
  "faults (failing_world n) = fault_at n" "queries_issued (failing_world n) = 0"
  by (simp_all add: failing_world_def)

theorem store_failure_propagates_witness:
  "faults (failing_world 0) (queries_issued (failing_world 0)) = Some (StoreError ''unavailable'')
   \<and> fst (canUserPerformAction (failing_world 0) ''bob'' ''take_quiz'') = Inl (StoreError ''unavailable'')
   \<and> queries_issued (snd (canUserPerformAction (failing_world 0) ''bob'' ''take_quiz'')) = 1
   \<and> fst (getUserUsageStats (failing_world 0) ''bob'') = Inl (StoreError ''unavailable'')
   \<and> queries_issued (snd (getUserUsageStats (failing_world 0) ''bob'')) = 1
   \<and> faults (failing_world 1) (queries_issued (failing_world 1)) = None
   \<and> faults (failing_world 1) (Suc (queries_issued (failing_world 1))) = Some (StoreError ''unavailable'')
   \<and> fst (getUserUsageStats (failing_world 1) ''bob'') = Inl (StoreError ''unavailable'')
   \<and> queries_issued (snd (getUserUsageStats (failing_world 1) ''bob'')) = 2
   \<and> faults (failing_world 2) (queries_issued (failing_world 2)) = None
   \<and> faults (failing_world 2) (Suc (queries_issued (failing_world 2))) = None
   \<and> faults (failing_world 2) (Suc (Suc (queries_issued (failing_world 2)))) = Some (StoreError ''unavailable'')
   \<and> fst (getUserUsageStats (failing_world 2) ''bob'') = Inl (StoreError ''unavailable'')
   \<and> queries_issued (snd (getUserUsageStats (failing_world 2) ''bob'')) = 3"
  using store_failure_propagates [of "failing_world 0" "StoreError ''unavailable''" "''bob''"]
    store_failure_propagates [of "failing_world 1" "StoreError ''unavailable''" "''bob''"]
    store_failure_propagates [of "failing_world 2" "StoreError ''unavailable''" "''bob''"]
  by (simp add: failing_world_faults fault_at_def)

section \<open>Repeated calls and the clock\<close>

lemma turning_world_facts:
  "faults turning_world = no_faults" "collections turning_world = sample_store"
  "clock turning_world = month_turns" "queries_issued turning_world = 0"
  "clock_reads turning_world = 0"
  "month_start turning_world 1793491199999 = 1790812800000"
  "month_start turning_world 1793491200000 = 1793491200000"
  "quizzes_since turning_world ''ann'' 1790812800000 = 5"
  "quizzes_since turning_world ''ann'' 1793491200000 = 0"
  by (simp_all add: turning_world_def sample_month_start sample_quizzes)

text \<open>
  Claim C8, as stated, fails: the decision also depends on the wall clock. With the sample
  store, ann asks to take a quiz in the last millisecond of October 2026, when her five
  quizzes of October count, and is denied; she asks again one millisecond later, in
  November, and is allowed with \<open>current\<close> 0. Nothing was written to the store in between.
\<close>

theorem repeated_call_differs_when_month_turns:
  "collections (snd (canUserPerformAction turning_world ''ann'' ''take_quiz''))
     = collections turning_world
   \<and> fst (canUserPerformAction turning_world ''ann'' ''take_quiz'') =
       Inr \<lparr>allowed = False,
            reason = Some ''You've taken 5 quizzes this month (free plan limit).'',
            current = Some 5, limit = Some 5, remaining = None,
            upgradeMessage = Some ''Upgrade to Starter or Pro for unlimited quizzes!''\<rparr>
   \<and> fst (canUserPerformAction (snd (canUserPerformAction turning_world ''ann'' ''take_quiz''))
          ''ann'' ''take_quiz'') =
       Inr \<lparr>allowed = True, reason = None, current = Some 0, limit = Some 5, remaining = Some 5,
            upgradeMessage = None\<rparr>"
proof -
  let ?w0 = "log_event (PlanLookup ''ann'') turning_world"
  have ok0: "faults ?w0 (queries_issued ?w0) = None"
    by (simp add: turning_world_facts no_faults_def)
  have c0: "quizzes_count turning_world ''ann'' = 5"
    by (simp add: quizzes_count_def next_now_def turning_world_facts month_turns_def)
  define w1 where "w1 = snd (canUserPerformAction turning_world ''ann'' ''take_quiz'')"
  have w1: "w1 = snd (checkQuizLimit ?w0 ''ann'')"
    by (simp add: w1_def canUserPerformAction_gated)
  let ?w2 = "log_event (PlanLookup ''ann'') w1"
  have ok1: "faults ?w2 (queries_issued ?w2) = None"
    by (simp add: w1 turning_world_facts no_faults_def)
  have c1: "quizzes_count w1 ''ann'' = 0"
    unfolding w1 check_worlds
    by (simp add: quizzes_count_def next_now_def turning_world_facts month_turns_def)
  have "collections w1 = collections turning_world"
    by (simp add: w1)
  moreover have "fst (canUserPerformAction turning_world ''ann'' ''take_quiz'') =
       Inr \<lparr>allowed = False,
            reason = Some ''You've taken 5 quizzes this month (free plan limit).'',
            current = Some 5, limit = Some 5, remaining = None,
            upgradeMessage = Some ''Upgrade to Starter or Pro for unlimited quizzes!''\<rparr>"
    by (simp add: canUserPerformAction_gated checkQuizLimit_ok [OF ok0] c0)
  moreover have "fst (canUserPerformAction w1 ''ann'' ''take_quiz'') =
       Inr \<lparr>allowed = True, reason = None, current = Some 0, limit = Some 5, remaining = Some 5,
            upgradeMessage = None\<rparr>"
    by (simp add: canUserPerformAction_gated checkQuizLimit_ok [OF ok1] c1)
  ultimately show ?thesis unfolding w1_def by blast
qed

lemma canUserPerformAction_frame:
  "collections (snd (canUserPerformAction w u a)) = collections w"
  "faults (snd (canUserPerformAction w u a)) = faults w"
  "getFullYear (snd (canUserPerformAction w u a)) = getFullYear w"
  "getMonth (snd (canUserPerformAction w u a)) = getMonth w"
  "getDate (snd (canUserPerformAction w u a)) = getDate w"
  "localDate (snd (canUserPerformAction w u a)) = localDate w"
  by (simp_all add: canUserPerformAction_def canUserPerformAction_plan_def getUserPlan_def
      check_worlds)

lemma counts_depend_on_store:
  assumes "collections v = collections w"
  shows "materials_count v u = materials_count w u"
    "quizzes_since v u s = quizzes_since w u s"
    "writings_since v u s = writings_since w u s"
  by (simp_all add: materials_count_def quizzes_since_def writings_since_def assms)

lemma check_answered:
  "checkMaterialLimit w u = (Inr d, w') \<Longrightarrow> faults w (queries_issued w) = None"
  "checkQuizLimit w u = (Inr d, w') \<Longrightarrow> faults w (queries_issued w) = None"
  "checkWritingLimit w u = (Inr d, w') \<Longrightarrow> faults w (queries_issued w) = None"
  by (cases "faults w (queries_issued w)";
      simp add: checkMaterialLimit_fail checkQuizLimit_fail checkWritingLimit_fail)+

lemma decision_determined_by_count:
  "checkMaterialLimit w u = (Inr d, w') \<Longrightarrow> checkMaterialLimit v x = (Inr d', v') \<Longrightarrow>
     materials_count v x = materials_count w u \<Longrightarrow> d = d'"
  "checkQuizLimit w u = (Inr d, w') \<Longrightarrow> checkQuizLimit v x = (Inr d', v') \<Longrightarrow>
     quizzes_count v x = quizzes_count w u \<Longrightarrow> d = d'"
  "checkWritingLimit w u = (Inr d, w') \<Longrightarrow> checkWritingLimit v x = (Inr d', v') \<Longrightarrow>
     writings_count v x = writings_count w u \<Longrightarrow> d = d'"
proof -
  show "d = d'" if a: "checkMaterialLimit w u = (Inr d, w')" and b: "checkMaterialLimit v x = (Inr d', v')"
    and c: "materials_count v x = materials_count w u"
  proof -
    have "fst (checkMaterialLimit w u) = fst (checkMaterialLimit v x)"
      unfolding checkMaterialLimit_ok [OF check_answered(1) [OF a]]
        checkMaterialLimit_ok [OF check_answered(1) [OF b]]
      by (simp add: c)
    with a b show ?thesis by simp
  qed
  show "d = d'" if a: "checkQuizLimit w u = (Inr d, w')" and b: "checkQuizLimit v x = (Inr d', v')"
    and c: "quizzes_count v x = quizzes_count w u"
  proof -
    have "fst (checkQuizLimit w u) = fst (checkQuizLimit v x)"
      unfolding checkQuizLimit_ok [OF check_answered(2) [OF a]]
        checkQuizLimit_ok [OF check_answered(2) [OF b]]
      by (simp add: c)
    with a b show ?thesis by simp
  qed
  show "d = d'" if a: "checkWritingLimit w u = (Inr d, w')" and b: "checkWritingLimit v x = (Inr d', v')"
    and c: "writings_count v x = writings_count w u"
  proof -
    have "fst (checkWritingLimit w u) = fst (checkWritingLimit v x)"
      unfolding checkWritingLimit_ok [OF check_answered(3) [OF a]]
        checkWritingLimit_ok [OF check_answered(3) [OF b]]
      by (simp add: c)
    with a b show ?thesis by simp
  qed
qed

text \<open>
  Claim C8, amended. Two consecutive calls of \<open>canUserPerformAction\<close> for the same user and
  action that both return a decision return the same decision, provided that the window
  has the same start at both calls: the same local month for \<^verbatim>\<open>take_quiz\<close>, the same
  local day for \<^verbatim>\<open>ai_writing\<close>. For the other actions nothing is required of the clock.
  The first call leaves the content of the store as it was.
\<close>

theorem repeated_call_same_window:
  assumes "canUserPerformAction w u a = (Inr d1, w1)"
      and "canUserPerformAction w1 u a = (Inr d2, w2)"
      and "a = ''take_quiz'' \<longrightarrow> month_start w1 (next_now w1) = month_start w (next_now w)"
      and "a = ''ai_writing'' \<longrightarrow> day_start w1 (next_now w1) = day_start w (next_now w)"
  shows "collections w1 = collections w \<and> d1 = d2"
proof -
  let ?v = "log_event (PlanLookup u) w"
  let ?v1 = "log_event (PlanLookup u) w1"
  have w1: "w1 = snd (canUserPerformAction w u a)"
    using assms(1) by simp
  have c: "collections w1 = collections w"
    by (simp add: w1 canUserPerformAction_frame)
  consider (m) "a = ''upload_material''" | (q) "a = ''take_quiz''" | (r) "a = ''ai_writing''"
    | (other) "a = ''generate_questions'' \<or>
         a \<notin> {''upload_material'', ''take_quiz'', ''ai_writing'', ''generate_questions''}"
    by auto
  then have "d1 = d2"
  proof cases
    case m
    from assms(1,2) have e: "checkMaterialLimit ?v u = (Inr d1, w1)" "checkMaterialLimit ?v1 u = (Inr d2, w2)"
      by (simp_all add: m canUserPerformAction_gated)
    have "materials_count ?v1 u = materials_count ?v u"
      by (simp add: counts_depend_on_store(1) [OF c])
    from decision_determined_by_count(1) [OF e this] show ?thesis .
  next
    case q
    from assms(1,2) have e: "checkQuizLimit ?v u = (Inr d1, w1)" "checkQuizLimit ?v1 u = (Inr d2, w2)"
      by (simp_all add: q canUserPerformAction_gated)
    have "quizzes_count ?v1 u = quizzes_count ?v u"
      using assms(3) q
      by (simp add: quizzes_count_def counts_depend_on_store(2) [OF c])
    from decision_determined_by_count(2) [OF e this] show ?thesis .
  next
    case r
    from assms(1,2) have e: "checkWritingLimit ?v u = (Inr d1, w1)" "checkWritingLimit ?v1 u = (Inr d2, w2)"
      by (simp_all add: r canUserPerformAction_gated)
    have "writings_count ?v1 u = writings_count ?v u"
      using assms(4) r
      by (simp add: writings_count_def counts_depend_on_store(3) [OF c])
    from decision_determined_by_count(3) [OF e this] show ?thesis .
  next
    case other
    then have "\<And>v. fst (canUserPerformAction v u a) = Inr allowed_only"
      by (auto simp: canUserPerformAction_def canUserPerformAction_plan_def getUserPlan_def)
    from this [of w] this [of w1] assms(1,2) show ?thesis by simp
  qed
  with c show ?thesis by simp
qed


theorem repeated_call_same_window_witness:
  "\<exists>d w1 w2. canUserPerformAction sample_world ''ann'' ''take_quiz'' = (Inr d, w1)
     \<and> canUserPerformAction w1 ''ann'' ''take_quiz'' = (Inr d, w2)
     \<and> month_start w1 (next_now w1) = month_start sample_world (next_now sample_world)
     \<and> collections w1 = collections sample_world"
proof -
  let ?v = "log_event (PlanLookup ''ann'') sample_world"
  define w1 where "w1 = snd (checkQuizLimit ?v ''ann'')"
  let ?v1 = "log_event (PlanLookup ''ann'') w1"
  define w2 where "w2 = snd (checkQuizLimit ?v1 ''ann'')"
  have "faults ?v (queries_issued ?v) = None"
    by (simp add: sample_world_def no_faults_def)
  from check_succeeds(2) [OF this] obtain d1
    where e1: "canUserPerformAction sample_world ''ann'' ''take_quiz'' = (Inr d1, w1)"
    unfolding w1_def canUserPerformAction_gated by blast
  have "faults ?v1 (queries_issued ?v1) = None"
    by (simp add: w1_def sample_world_def no_faults_def)
  from check_succeeds(2) [OF this] obtain d2
    where e2: "canUserPerformAction w1 ''ann'' ''take_quiz'' = (Inr d2, w2)"
    unfolding w2_def canUserPerformAction_gated by blast
  have ms: "month_start w1 (next_now w1) = month_start sample_world (next_now sample_world)"
    unfolding w1_def check_worlds
    by (simp add: next_now_def sample_world_def late_october_def)
  have h3: "''take_quiz'' = ''take_quiz'' \<longrightarrow>
      month_start w1 (next_now w1) = month_start sample_world (next_now sample_world)"
    using ms by simp
  have h4: "''take_quiz'' = ''ai_writing'' \<longrightarrow>
      day_start w1 (next_now w1) = day_start sample_world (next_now sample_world)"
    by simp
  from repeated_call_same_window [OF e1 e2 h3 h4] e1 e2 ms show ?thesis by blast
qed

section \<open>How the remaining count steps down\<close>

lemma remaining_never_zero:
  assumes "checkMaterialLimit w u = (Inr d, w') \<or> checkQuizLimit w u = (Inr d, w')
           \<or> checkWritingLimit w u = (Inr d, w')"
  shows "remaining d \<noteq> Some 0"
proof (cases "faults w (queries_issued w)")
  case None
  from assms show ?thesis
    unfolding checkMaterialLimit_ok [OF None] checkQuizLimit_ok [OF None] checkWritingLimit_ok [OF None]
    by (auto split: if_splits)
next
  case (Some e)
  from assms show ?thesis
    unfolding checkMaterialLimit_fail [OF Some] checkQuizLimit_fail [OF Some] checkWritingLimit_fail [OF Some]
    by simp
qed

text \<open>
  Claim C9, as stated, fails: the remaining count of an allowed decision does not go down
  to 0. With the sample store, eve has no writing of the day and is allowed with
  \<open>current\<close> 0 and \<open>remaining\<close> 1, the last allowed count below the limit 1; ann has one
  writing and is denied, and her decision carries no \<open>remaining\<close> at all.
\<close>

theorem remaining_stops_at_one:
  "fst (checkWritingLimit sample_world ''eve'') =
     Inr \<lparr>allowed = True, reason = None, current = Some 0, limit = Some 1, remaining = Some 1,
          upgradeMessage = None\<rparr>
   \<and> fst (checkWritingLimit sample_world ''ann'') =
     Inr \<lparr>allowed = False,
          reason = Some ''You've used your 1 AI writing for today (free plan limit).'',
          current = Some 1, limit = Some 1, remaining = None,
          upgradeMessage = Some ''Upgrade to Starter for 10 writings/day or Pro for unlimited!''\<rparr>"
  by (simp add: checkWritingLimit_ok [OF sample_world_sound] sample_counts)

text \<open>
  Claim C9, amended. For each counter, a count \<open>c\<close> below the limit gives an allowed
  decision with \<open>current = c\<close> and \<open>remaining = limit - c\<close>, which is at least 1. One more
  record, \<open>current = c + 1\<close>, gives exactly one less, \<open>remaining = limit - c - 1\<close>, still at
  least 1, while \<open>c + 1\<close> is below the limit; when \<open>c + 1\<close> reaches the limit the decision is
  denied and carries no \<open>remaining\<close>. So \<open>remaining\<close> goes down to 1, never to 0.
\<close>

theorem remaining_steps_down:
  assumes "faults w (queries_issued w) = None" and "faults v (queries_issued v) = None"
  shows "(materials_count w u < 3 \<and> materials_count v x = materials_count w u + 1 \<longrightarrow>
          (\<exists>d d' w' v'. checkMaterialLimit w u = (Inr d, w') \<and> checkMaterialLimit v x = (Inr d', v')
             \<and> allowed d \<and> current d = Some (materials_count w u)
             \<and> remaining d = Some (3 - materials_count w u) \<and> 1 \<le> 3 - materials_count w u
             \<and> current d' = Some (materials_count w u + 1)
             \<and> (if materials_count w u + 1 < 3
                 then allowed d' \<and> remaining d' = Some (3 - materials_count w u - 1)
                      \<and> 1 \<le> 3 - materials_count w u - 1
                 else \<not> allowed d' \<and> remaining d' = None)))
       \<and> (quizzes_count w u < 5 \<and> quizzes_count v x = quizzes_count w u + 1 \<longrightarrow>
          (\<exists>d d' w' v'. checkQuizLimit w u = (Inr d, w') \<and> checkQuizLimit v x = (Inr d', v')
             \<and> allowed d \<and> current d = Some (quizzes_count w u)
             \<and> remaining d = Some (5 - quizzes_count w u) \<and> 1 \<le> 5 - quizzes_count w u
             \<and> current d' = Some (quizzes_count w u + 1)
             \<and> (if quizzes_count w u + 1 < 5
                 then allowed d' \<and> remaining d' = Some (5 - quizzes_count w u - 1)
                      \<and> 1 \<le> 5 - quizzes_count w u - 1
                 else \<not> allowed d' \<and> remaining d' = None)))
       \<and> (writings_count w u < 1 \<and> writings_count v x = writings_count w u + 1 \<longrightarrow>
          (\<exists>d d' w' v'. checkWritingLimit w u = (Inr d, w') \<and> checkWritingLimit v x = (Inr d', v')
             \<and> allowed d \<and> current d = Some (writings_count w u)
             \<and> remaining d = Some (1 - writings_count w u) \<and> 1 \<le> 1 - writings_count w u
             \<and> current d' = Some (writings_count w u + 1)
             \<and> (if writings_count w u + 1 < 1
                 then allowed d' \<and> remaining d' = Some (1 - writings_count w u - 1)
                      \<and> 1 \<le> 1 - writings_count w u - 1
                 else \<not> allowed d' \<and> remaining d' = None)))"
proof -
  have m: "\<exists>d d' w' v'. checkMaterialLimit w u = (Inr d, w') \<and> checkMaterialLimit v x = (Inr d', v')
             \<and> allowed d \<and> current d = Some (materials_count w u)
             \<and> remaining d = Some (3 - materials_count w u) \<and> 1 \<le> 3 - materials_count w u
             \<and> current d' = Some (materials_count w u + 1)
             \<and> (if materials_count w u + 1 < 3
                 then allowed d' \<and> remaining d' = Some (3 - materials_count w u - 1)
                      \<and> 1 \<le> 3 - materials_count w u - 1
                 else \<not> allowed d' \<and> remaining d' = None)"
    if "materials_count w u < 3" "materials_count v x = materials_count w u + 1"
    using that by (simp add: checkMaterialLimit_ok [OF assms(1)] checkMaterialLimit_ok [OF assms(2)])
  have q: "\<exists>d d' w' v'. checkQuizLimit w u = (Inr d, w') \<and> checkQuizLimit v x = (Inr d', v')
             \<and> allowed d \<and> current d = Some (quizzes_count w u)
             \<and> remaining d = Some (5 - quizzes_count w u) \<and> 1 \<le> 5 - quizzes_count w u
             \<and> current d' = Some (quizzes_count w u + 1)
             \<and> (if quizzes_count w u + 1 < 5
                 then allowed d' \<and> remaining d' = Some (5 - quizzes_count w u - 1)
                      \<and> 1 \<le> 5 - quizzes_count w u - 1
                 else \<not> allowed d' \<and> remaining d' = None)"
    if "quizzes_count w u < 5" "quizzes_count v x = quizzes_count w u + 1"
    using that by (simp add: checkQuizLimit_ok [OF assms(1)] checkQuizLimit_ok [OF assms(2)])
  have r: "\<exists>d d' w' v'. checkWritingLimit w u = (Inr d, w') \<and> checkWritingLimit v x = (Inr d', v')
             \<and> allowed d \<and> current d = Some (writings_count w u)
             \<and> remaining d = Some (1 - writings_count w u) \<and> 1 \<le> 1 - writings_count w u
             \<and> current d' = Some (writings_count w u + 1)
             \<and> (if writings_count w u + 1 < 1
                 then allowed d' \<and> remaining d' = Some (1 - writings_count w u - 1)
                      \<and> 1 \<le> 1 - writings_count w u - 1
                 else \<not> allowed d' \<and> remaining d' = None)"
    if "writings_count w u < 1" "writings_count v x = writings_count w u + 1"
    using that by (simp add: checkWritingLimit_ok [OF assms(1)] checkWritingLimit_ok [OF assms(2)])
  from m q r show ?thesis by blast
qed


theorem remaining_steps_down_witness:
  "faults sample_world (queries_issued sample_world) = None
   \<and> materials_count sample_world ''eve'' < 3
   \<and> materials_count sample_world ''bob'' = materials_count sample_world ''eve'' + 1
   \<and> (\<exists>d d' w' v'. checkMaterialLimit sample_world ''eve'' = (Inr d, w')
         \<and> checkMaterialLimit sample_world ''bob'' = (Inr d', v')
         \<and> current d = Some 0 \<and> remaining d = Some 3
         \<and> current d' = Some 1 \<and> allowed d' \<and> remaining d' = Some 2)
   \<and> quizzes_count sample_world ''eve'' < 5
   \<and> quizzes_count sample_world ''bob'' = quizzes_count sample_world ''eve'' + 1
   \<and> (\<exists>d d' w' v'. checkQuizLimit sample_world ''eve'' = (Inr d, w')
         \<and> checkQuizLimit sample_world ''bob'' = (Inr d', v')
         \<and> current d = Some 0 \<and> remaining d = Some 5
         \<and> current d' = Some 1 \<and> allowed d' \<and> remaining d' = Some 4)
   \<and> writings_count sample_world ''eve'' < 1
   \<and> writings_count sample_world ''ann'' = writings_count sample_world ''eve'' + 1
   \<and> (\<exists>d d' w' v'. checkWritingLimit sample_world ''eve'' = (Inr d, w')
         \<and> checkWritingLimit sample_world ''ann'' = (Inr d', v')
         \<and> current d = Some 0 \<and> remaining d = Some 1
         \<and> current d' = Some 1 \<and> \<not> allowed d' \<and> remaining d' = None)"
proof -
  note b = remaining_steps_down [OF sample_world_sound sample_world_sound, of "''eve''" "''bob''"]
  note a = remaining_steps_down [OF sample_world_sound sample_world_sound, of "''eve''" "''ann''"]
  have hm: "materials_count sample_world ''eve'' < 3
      \<and> materials_count sample_world ''bob'' = materials_count sample_world ''eve'' + 1"
    by (simp add: sample_counts)
  have hq: "quizzes_count sample_world ''eve'' < 5
      \<and> quizzes_count sample_world ''bob'' = quizzes_count sample_world ''eve'' + 1"
    by (simp add: sample_counts)
  have hw: "writings_count sample_world ''eve'' < 1
      \<and> writings_count sample_world ''ann'' = writings_count sample_world ''eve'' + 1"
    by (simp add: sample_counts)
  from b [THEN conjunct1, rule_format, OF hm]
  have m: "\<exists>d d' w' v'. checkMaterialLimit sample_world ''eve'' = (Inr d, w')
         \<and> checkMaterialLimit sample_world ''bob'' = (Inr d', v')
         \<and> current d = Some 0 \<and> remaining d = Some 3
         \<and> current d' = Some 1 \<and> allowed d' \<and> remaining d' = Some 2"
    by (auto simp: sample_counts)
  from b [THEN conjunct2, THEN conjunct1, rule_format, OF hq]
  have q: "\<exists>d d' w' v'. checkQuizLimit sample_world ''eve'' = (Inr d, w')
         \<and> checkQuizLimit sample_world ''bob'' = (Inr d', v')
         \<and> current d = Some 0 \<and> remaining d = Some 5
         \<and> current d' = Some 1 \<and> allowed d' \<and> remaining d' = Some 4"
    by (auto simp: sample_counts)
  from a [THEN conjunct2, THEN conjunct2, rule_format, OF hw]
  have r: "\<exists>d d' w' v'. checkWritingLimit sample_world ''eve'' = (Inr d, w')
         \<and> checkWritingLimit sample_world ''ann'' = (Inr d', v')
         \<and> current d = Some 0 \<and> remaining d = Some 1
         \<and> current d' = Some 1 \<and> \<not> allowed d' \<and> remaining d' = None"
    by (auto simp: sample_counts)
  from sample_world_sound hm m hq q hw r show ?thesis by simp
qed

section \<open>The plan test\<close>

text \<open>
  Claim C10. The plan test compares with the lower-case string \<^verbatim>\<open>'free'\<close>: any other
  plan, the display names \<^verbatim>\<open>'Free'\<close>, \<^verbatim>\<open>'Starter'\<close> and \<^verbatim>\<open>'Pro'\<close> of
  \<open>PLAN_NAMES\<close> among them, would be allowed without a query. As shipped, \<open>getUserPlan\<close>
  returns \<^verbatim>\<open>'free'\<close> for every user, so \<open>canUserPerformAction\<close> is its free-plan body and
  every gated action runs its counter.
\<close>

theorem plan_test_is_exact:
  "(\<forall>p. p \<noteq> ''free'' \<longrightarrow>
        canUserPerformAction_plan p w u a =
          (Inr \<lparr>allowed = True, reason = None, current = None, limit = None, remaining = None,
                upgradeMessage = None\<rparr>, w))
   \<and> (\<forall>k p. PLAN_NAMES k = Some p \<longrightarrow>
        canUserPerformAction_plan p w u a =
          (Inr \<lparr>allowed = True, reason = None, current = None, limit = None, remaining = None,
                upgradeMessage = None\<rparr>, w))
   \<and> fst (getUserPlan u w) = ''free''
   \<and> canUserPerformAction w u a =
        canUserPerformAction_plan ''free'' (log_event (PlanLookup u) w) u a
   \<and> canUserPerformAction w u ''upload_material'' = checkMaterialLimit (log_event (PlanLookup u) w) u
   \<and> canUserPerformAction w u ''take_quiz'' = checkQuizLimit (log_event (PlanLookup u) w) u
   \<and> canUserPerformAction w u ''ai_writing'' = checkWritingLimit (log_event (PlanLookup u) w) u"
proof -
  have n: "canUserPerformAction_plan p w u a =
          (Inr \<lparr>allowed = True, reason = None, current = None, limit = None, remaining = None,
                upgradeMessage = None\<rparr>, w)" if "p \<noteq> ''free''" for p
    using that by (simp add: canUserPerformAction_plan_def allowed_only_def)
  have "p \<noteq> ''free''" if "PLAN_NAMES k = Some p" for k p
    using that by (auto simp: PLAN_NAMES_def split: if_splits)
  with n have d: "canUserPerformAction_plan p w u a =
          (Inr \<lparr>allowed = True, reason = None, current = None, limit = None, remaining = None,
                upgradeMessage = None\<rparr>, w)" if "PLAN_NAMES k = Some p" for k p
    using that by blast
  have g: "fst (getUserPlan u w) = ''free''"
    by (simp add: getUserPlan_def)
  have b: "canUserPerformAction w u a =
        canUserPerformAction_plan ''free'' (log_event (PlanLookup u) w) u a"
    by (simp add: canUserPerformAction_def getUserPlan_def)
  from n d g b canUserPerformAction_gated [of w u] show ?thesis by blast
qed

theorem plan_test_is_exact_witness:
  "''Free'' \<noteq> ''free''
   \<and> canUserPerformAction_plan ''Free'' sample_world ''ann'' ''upload_material'' =
       (Inr \<lparr>allowed = True, reason = None, current = None, limit = None, remaining = None,
             upgradeMessage = None\<rparr>, sample_world)
   \<and> PLAN_NAMES ''pro'' = Some ''Pro''
   \<and> canUserPerformAction_plan ''Pro'' sample_world ''ann'' ''upload_material'' =
       (Inr \<lparr>allowed = True, reason = None, current = None, limit = None, remaining = None,
             upgradeMessage = None\<rparr>, sample_world)
   \<and> queries_issued (snd (canUserPerformAction sample_world ''ann'' ''upload_material'')) = 1"
proof -
  note h = plan_test_is_exact [of sample_world "''ann''" "''upload_material''"]
  have a: "''Free'' \<noteq> ''free''" by simp
  have b: "PLAN_NAMES ''pro'' = Some ''Pro''" by (simp add: PLAN_NAMES_def)
  note 1 = h [THEN conjunct1, rule_format, OF a]
  note 2 = h [THEN conjunct2, THEN conjunct1, rule_format, OF b]
  note g = h [THEN conjunct2, THEN conjunct2, THEN conjunct2, THEN conjunct2, THEN conjunct1]
  have 3: "queries_issued (snd (canUserPerformAction sample_world ''ann'' ''upload_material'')) = 1"
    unfolding g by (simp add: sample_world_def)
  show ?thesis
    using a b 1 2 3 by simp
qed

end
